theory Spec2Isabelle
  imports Complex_Main "HOL-Library.Word"
begin

section \<open>Outcomes of a call\<close>

text \<open>
  The checks of \<^verbatim>\<open>row_block.h\<close> (\<^verbatim>\<open>CHECK_LE\<close>, \<^verbatim>\<open>CHECK_EQ\<close>, \<^verbatim>\<open>CHECK\<close>) raise a fatal
  error. The error kinds carry the names the specification gives them:
  \<^item> \<open>OverflowError\<close>: \<^verbatim>\<open>CHECK_LE(x, std::numeric_limits<IndexType>::max())\<close> failed;
  \<^item> \<open>SizeMismatchError\<close>: \<^verbatim>\<open>CHECK_EQ(batch.size, size)\<close> failed;
  \<^item> \<open>ValidationError\<close>: a consistency check of \<^verbatim>\<open>GetBlock\<close> failed;
  \<^item> \<open>FormatError\<close>: a \<^verbatim>\<open>CHECK(fi->Read(...)) << "Bad RowBlock format"\<close> failed.

  A mutating member function ends in one of three ways: it returns (\<open>Done\<close>, with the
  container as it is then), it raises (\<open>Raised\<close>, with the container as the statements
  executed so far have left it), or it reads or writes outside an array, which has no
  defined behaviour in C++ (\<open>Undefined\<close>: nothing is known afterwards).
\<close>

datatype error = OverflowError | SizeMismatchError | ValidationError | FormatError

datatype 's outcome = Done 's | Raised error 's | Undefined

fun and_then :: "'s outcome \<Rightarrow> ('s \<Rightarrow> 's outcome) \<Rightarrow> 's outcome" where
  "and_then (Done s) f = f s"
| "and_then (Raised e s) f = Raised e s"
| "and_then Undefined f = Undefined"

text \<open>A function body: its statements, run in order until one does not return.\<close>

fun steps :: "('s \<Rightarrow> 's outcome) list \<Rightarrow> 's \<Rightarrow> 's outcome" where
  "steps [] s = Done s"
| "steps (f # fs) s = and_then (f s) (steps fs)"


section \<open>Data\<close>

text \<open>
  \<^verbatim>\<open>size_t\<close> is modelled by \<open>nat\<close>: sizes and offsets of the model are those of vectors
  that fit into memory, and no claim depends on a \<^verbatim>\<open>size_t\<close> wrapping around.
  \<^verbatim>\<open>IndexType\<close> is a word type \<open>'i word\<close>, the index type \<^verbatim>\<open>I\<close> of a pushed row or block
  is \<open>'j word\<close> (both unsigned). \<^verbatim>\<open>DType\<close> and \<^verbatim>\<open>real_t\<close> are one type \<open>'d\<close> (\<^verbatim>\<open>real_t\<close> is
  the default of \<^verbatim>\<open>DType\<close>); the code only copies such values.

  A \<^verbatim>\<open>std::vector\<close> is a list. A pointer into foreign memory is the list of the elements
  that can be read through it; a pointer that the code compares with \<^verbatim>\<open>NULL\<close> is an
  \<open>option\<close>. Reading past the end of such a list is \<open>Undefined\<close>.
\<close>

record ('x, 'd) UnitBlockContainer =
  u_offset :: "nat list"
  u_index :: "'x list"
  u_value :: "'d list"
  u_max_index :: 'x

record ('x, 'd) RowBlockContainer =
  c_offset :: "nat list"
  c_label_width :: nat
  c_label :: "'d list"
  c_weight :: "'d list"
  c_qid :: "nat list"
  c_field :: "'x list"
  c_index :: "'x list"
  c_value :: "'d list"
  c_max_field :: 'x
  c_max_index :: 'x
  c_extra :: "('x, 'd) UnitBlockContainer list"

text \<open>
  Modelled from the spec: \<^verbatim>\<open>UnitData\<close>, \<^verbatim>\<open>UnitBlock\<close>, \<^verbatim>\<open>Row\<close> and \<^verbatim>\<open>RowBlock\<close> are declared in
  \<^verbatim>\<open>dmlc/data.h\<close>, which is not among the sources. The records hold the members that
  \<^verbatim>\<open>row_block.h\<close> reads or writes. A row carries the results of \<^verbatim>\<open>get_weight()\<close> and
  \<^verbatim>\<open>get_qid()\<close> (the spec: one weight and one qid, always present at this call site).
\<close>

record ('x, 'd) UnitData =
  d_length :: nat
  d_index :: "'x list"
  d_value :: "'d list option"

record ('x, 'd) UnitBlock =
  k_size :: nat
  k_offset :: "nat list"
  k_index :: "'x list"
  k_value :: "'d list option"

record ('x, 'd) Row =
  r_label :: "'d list"
  r_label_width :: nat
  r_weight :: 'd
  r_qid :: nat
  r_length :: nat
  r_field :: "'x list option"
  r_index :: "'x list"
  r_value :: "'d list option"
  r_extra :: "('x, 'd) UnitData list"

record ('x, 'd) RowBlock =
  b_size :: nat
  b_label_width :: nat
  b_offset :: "nat list"
  b_label :: "'d list"
  b_weight :: "'d list option"
  b_qid :: "nat list option"
  b_field :: "'x list option"
  b_index :: "'x list"
  b_value :: "'d list option"
  b_extra :: "('x, 'd) UnitBlock list"

section \<open>Narrowing and the copy loops\<close>

text \<open>
  \<^verbatim>\<open>CHECK_LE(x, std::numeric_limits<IndexType>::max())\<close> followed by
  \<^verbatim>\<open>static_cast<IndexType>(x)\<close>: \<open>None\<close> when the check fails.
\<close>

definition Narrow :: "'j::len word \<Rightarrow> 'i::len word option" where
  "Narrow x = (if unat x \<le> unat (- 1 :: 'i word) then Some (ucast x) else None)"

text \<open>
  \<^verbatim>\<open>for (i = 0; i < n; ++i) { CHECK_LE(src[i], max); findex = cast(src[i]);
  v.push_back(findex); m = std::max(m, findex); }\<close>.
  The first argument counts the iterations left, the second is the memory from \<^verbatim>\<open>src + i\<close> on.
\<close>

fun narrow_push ::
  "nat \<Rightarrow> 'j::len word list \<Rightarrow> 'i::len word list \<times> 'i word \<Rightarrow> ('i word list \<times> 'i word) outcome"
where
  "narrow_push 0 src (v, m) = Done (v, m)"
| "narrow_push (Suc n) [] (v, m) = Undefined"
| "narrow_push (Suc n) (x # src) (v, m) =
     (case Narrow x of
        None \<Rightarrow> Raised OverflowError (v, m)
      | Some findex \<Rightarrow> narrow_push n src (v @ [findex], max m findex))"

text \<open>
  \<^verbatim>\<open>for (i = 0; i < n; ++i) { CHECK_LE(src[i], max); findex = cast(src[i]);
  head[i] = findex; m = std::max(m, findex); }\<close> where \<^verbatim>\<open>head = BeginPtr(v) + p\<close>:
  the third argument is the position \<^verbatim>\<open>p + i\<close> written next.
\<close>

fun narrow_write ::
  "nat \<Rightarrow> 'j::len word list \<Rightarrow> nat \<Rightarrow> 'i::len word list \<times> 'i word \<Rightarrow> ('i word list \<times> 'i word) outcome"
where
  "narrow_write 0 src p (v, m) = Done (v, m)"
| "narrow_write (Suc n) [] p (v, m) = Undefined"
| "narrow_write (Suc n) (x # src) p (v, m) =
     (case Narrow x of
        None \<Rightarrow> Raised OverflowError (v, m)
      | Some findex \<Rightarrow>
          if p < length v then narrow_write n src (Suc p) (v[p := findex], max m findex)
          else Undefined)"

text \<open>
  Copying \<open>n\<close> elements from foreign memory to the end of a vector: the loop
  \<^verbatim>\<open>for (i = 0; i < n; ++i) v.push_back(src[i])\<close>, \<^verbatim>\<open>v.insert(v.end(), src, src + n)\<close>, and
  \<^verbatim>\<open>v.resize(v.size() + n); memcpy(BeginPtr(v) + v.size() - n, src, n * sizeof ...)\<close>.
\<close>

definition append_n :: "nat \<Rightarrow> 'a list \<Rightarrow> 'a list \<Rightarrow> 'a list outcome" where
  "append_n n src v = (if n \<le> length src then Done (v @ take n src) else Undefined)"

text \<open>\<^verbatim>\<open>v.resize(v.size() + n)\<close> on a vector of integers: the new elements are zero.\<close>

definition grow :: "nat \<Rightarrow> 'a::zero list \<Rightarrow> 'a list" where
  "grow n v = v @ replicate n 0"

text \<open>
  \<^verbatim>\<open>shift = offset[size]; offset.resize(offset.size() + batch.size);
  ohead = BeginPtr(offset) + size + 1;
  for (i = 0; i < batch.size; ++i) ohead[i] = shift + batch.offset[i + 1] - batch.offset[0];\<close>
  The loop is \<open>write_offsets\<close>: \<open>i\<close> counts up to \<open>n\<close>, the position written is \<open>p + i\<close>.
\<close>

fun write_offsets :: "nat \<Rightarrow> nat \<Rightarrow> nat \<Rightarrow> nat \<Rightarrow> nat list \<Rightarrow> nat list \<Rightarrow> nat list outcome" where
  "write_offsets 0 i p shift boff off = Done off"
| "write_offsets (Suc n) i p shift boff off =
     (if Suc i < length boff \<and> p + i < length off
      then write_offsets n (Suc i) p shift boff (off[p + i := shift + boff ! Suc i - boff ! 0])
      else Undefined)"

definition shift_offsets :: "nat \<Rightarrow> nat \<Rightarrow> nat list \<Rightarrow> nat list \<Rightarrow> nat list outcome" where
  "shift_offsets sz n boff off =
     (if sz < length off
      then write_offsets n 0 (sz + 1) (off ! sz) boff (grow n off)
      else Undefined)"

section \<open>UnitBlockContainer\<close>

definition Clear_unit :: "('i::len word, 'd) UnitBlockContainer \<Rightarrow> ('i word, 'd) UnitBlockContainer" where
  "Clear_unit u = u\<lparr>u_offset := [0], u_index := [], u_value := [], u_max_index := 0\<rparr>"

text \<open>\<^verbatim>\<open>UnitBlockContainer::Push(UnitData<I, D> row)\<close>, statement by statement.\<close>

definition unit_row_index ::
  "('j::len word, 'd) UnitData \<Rightarrow> ('i::len word, 'd) UnitBlockContainer \<Rightarrow> ('i word, 'd) UnitBlockContainer outcome"
where
  "unit_row_index row u =
     map_outcome (\<lambda>(v, m). u\<lparr>u_index := v, u_max_index := m\<rparr>)
       (narrow_push (d_length row) (d_index row) (u_index u, u_max_index u))"

definition unit_row_value ::
  "('j::len word, 'd) UnitData \<Rightarrow> ('i::len word, 'd) UnitBlockContainer \<Rightarrow> ('i word, 'd) UnitBlockContainer outcome"
where
  "unit_row_value row u =
     (case d_value row of
        None \<Rightarrow> Done u
      | Some src \<Rightarrow> map_outcome (\<lambda>v. u\<lparr>u_value := v\<rparr>) (append_n (d_length row) src (u_value u)))"

definition unit_row_offset :: "('i::len word, 'd) UnitBlockContainer \<Rightarrow> ('i word, 'd) UnitBlockContainer outcome" where
  "unit_row_offset u = Done (u\<lparr>u_offset := u_offset u @ [length (u_index u)]\<rparr>)"

definition Push_unit_row ::
  "('j::len word, 'd) UnitData \<Rightarrow> ('i::len word, 'd) UnitBlockContainer \<Rightarrow> ('i word, 'd) UnitBlockContainer outcome"
where
  "Push_unit_row row = steps [unit_row_index row, unit_row_value row, unit_row_offset]"

text \<open>
  \<^verbatim>\<open>size_t ndata = batch.offset[batch.size] - batch.offset[0];\<close>
  (\<open>None\<close>: the read is outside \<^verbatim>\<open>batch.offset\<close>).
\<close>

definition batch_ndata :: "nat \<Rightarrow> nat list \<Rightarrow> nat option" where
  "batch_ndata n boff = (if n < length boff then Some (boff ! n - boff ! 0) else None)"

text \<open>\<^verbatim>\<open>UnitBlockContainer::Push(UnitBlock<I, D> batch, size_t size)\<close>, statement by statement.\<close>

definition unit_block_check ::
  "('j::len word, 'd) UnitBlock \<Rightarrow> nat \<Rightarrow> ('i::len word, 'd) UnitBlockContainer \<Rightarrow> ('i word, 'd) UnitBlockContainer outcome"
where
  "unit_block_check batch sz u =
     (if k_size batch = sz then Done u else Raised SizeMismatchError u)"

definition unit_block_index ::
  "('j::len word, 'd) UnitBlock \<Rightarrow> nat \<Rightarrow> ('i::len word, 'd) UnitBlockContainer \<Rightarrow> ('i word, 'd) UnitBlockContainer outcome"
where
  "unit_block_index batch ndata u =
     (if u_offset u = [] then Undefined
      else map_outcome (\<lambda>(v, m). u\<lparr>u_index := v, u_max_index := m\<rparr>)
             (narrow_write ndata (k_index batch) (last (u_offset u))
                (grow ndata (u_index u), u_max_index u)))"

definition unit_block_value ::
  "('j::len word, 'd) UnitBlock \<Rightarrow> nat \<Rightarrow> ('i::len word, 'd) UnitBlockContainer \<Rightarrow> ('i word, 'd) UnitBlockContainer outcome"
where
  "unit_block_value batch ndata u =
     (case k_value batch of
        None \<Rightarrow> Done u
      | Some src \<Rightarrow> map_outcome (\<lambda>v. u\<lparr>u_value := v\<rparr>) (append_n ndata src (u_value u)))"

definition unit_block_offset ::
  "('j::len word, 'd) UnitBlock \<Rightarrow> nat \<Rightarrow> ('i::len word, 'd) UnitBlockContainer \<Rightarrow> ('i word, 'd) UnitBlockContainer outcome"
where
  "unit_block_offset batch sz u =
     map_outcome (\<lambda>off. u\<lparr>u_offset := off\<rparr>)
       (shift_offsets sz (k_size batch) (k_offset batch) (u_offset u))"

definition Push_unit_block ::
  "('j::len word, 'd) UnitBlock \<Rightarrow> nat \<Rightarrow> ('i::len word, 'd) UnitBlockContainer \<Rightarrow> ('i word, 'd) UnitBlockContainer outcome"
where
  "Push_unit_block batch sz u =
     and_then (unit_block_check batch sz u)
       (\<lambda>u. case batch_ndata (k_size batch) (k_offset batch) of
               None \<Rightarrow> Undefined
             | Some ndata \<Rightarrow>
                 steps [unit_block_index batch ndata, unit_block_value batch ndata,
                        unit_block_offset batch sz] u)"

section \<open>RowBlockContainer\<close>

text \<open>
  The constructor: \<^verbatim>\<open>label_width = 1\<close> (the member's initialiser), no extra channel,
  then \<^verbatim>\<open>Clear()\<close>.
\<close>

definition Clear :: "('i::len word, 'd) RowBlockContainer \<Rightarrow> ('i word, 'd) RowBlockContainer" where
  "Clear s = s\<lparr>c_offset := [0], c_label := [], c_field := [], c_index := [], c_value := [],
               c_weight := [], c_qid := [], c_max_field := 0, c_max_index := 0,
               c_extra := map Clear_unit (c_extra s)\<rparr>"

definition RowBlockContainer_new :: "('i::len word, 'd) RowBlockContainer" where
  "RowBlockContainer_new =
     \<lparr>c_offset = [0], c_label_width = 1, c_label = [], c_weight = [], c_qid = [],
      c_field = [], c_index = [], c_value = [], c_max_field = 0, c_max_index = 0,
      c_extra = []\<rparr>"

definition Size :: "('x, 'd) RowBlockContainer \<Rightarrow> nat" where
  "Size s = length (c_offset s) - 1"

text \<open>
  \<^verbatim>\<open>for (i = 0; i < fragments.size(); ++i) extra[i].Push(fragments[i] ...)\<close>: the loop that
  ends both \<^verbatim>\<open>Push\<close> functions. \<open>i\<close> is the channel pushed to next; a channel
  that the container does not have is an access outside \<^verbatim>\<open>extra\<close>.
\<close>

fun forward :: "('f \<Rightarrow> 'u \<Rightarrow> 'u outcome) \<Rightarrow> nat \<Rightarrow> 'f list \<Rightarrow> 'u list \<Rightarrow> 'u list outcome" where
  "forward push i [] ex = Done ex"
| "forward push i (f # fs) ex =
     (if i < length ex
      then (case push f (ex ! i) of
              Done u \<Rightarrow> forward push (Suc i) fs (ex[i := u])
            | Raised e u \<Rightarrow> Raised e (ex[i := u])
            | Undefined \<Rightarrow> Undefined)
      else Undefined)"

text \<open>\<^verbatim>\<open>RowBlockContainer::Push(Row<I, DType> row)\<close>, statement by statement.\<close>

definition row_label ::
  "('j::len word, 'd) Row \<Rightarrow> ('i::len word, 'd) RowBlockContainer \<Rightarrow> ('i word, 'd) RowBlockContainer outcome"
where
  "row_label row s =
     map_outcome (\<lambda>v. s\<lparr>c_label := v\<rparr>) (append_n (r_label_width row) (r_label row) (c_label s))"

definition row_weight ::
  "('j::len word, 'd) Row \<Rightarrow> ('i::len word, 'd) RowBlockContainer \<Rightarrow> ('i word, 'd) RowBlockContainer outcome"
where
  "row_weight row s = Done (s\<lparr>c_weight := c_weight s @ [r_weight row]\<rparr>)"

definition row_qid ::
  "('j::len word, 'd) Row \<Rightarrow> ('i::len word, 'd) RowBlockContainer \<Rightarrow> ('i word, 'd) RowBlockContainer outcome"
where
  "row_qid row s = Done (s\<lparr>c_qid := c_qid s @ [r_qid row]\<rparr>)"

definition row_field ::
  "('j::len word, 'd) Row \<Rightarrow> ('i::len word, 'd) RowBlockContainer \<Rightarrow> ('i word, 'd) RowBlockContainer outcome"
where
  "row_field row s =
     (case r_field row of
        None \<Rightarrow> Done s
      | Some src \<Rightarrow>
          map_outcome (\<lambda>(v, m). s\<lparr>c_field := v, c_max_field := m\<rparr>)
            (narrow_push (r_length row) src (c_field s, c_max_field s)))"

definition row_index ::
  "('j::len word, 'd) Row \<Rightarrow> ('i::len word, 'd) RowBlockContainer \<Rightarrow> ('i word, 'd) RowBlockContainer outcome"
where
  "row_index row s =
     map_outcome (\<lambda>(v, m). s\<lparr>c_index := v, c_max_index := m\<rparr>)
       (narrow_push (r_length row) (r_index row) (c_index s, c_max_index s))"

definition row_value ::
  "('j::len word, 'd) Row \<Rightarrow> ('i::len word, 'd) RowBlockContainer \<Rightarrow> ('i word, 'd) RowBlockContainer outcome"
where
  "row_value row s =
     (case r_value row of
        None \<Rightarrow> Done s
      | Some src \<Rightarrow> map_outcome (\<lambda>v. s\<lparr>c_value := v\<rparr>) (append_n (r_length row) src (c_value s)))"

definition row_extra ::
  "('j::len word, 'd) Row \<Rightarrow> ('i::len word, 'd) RowBlockContainer \<Rightarrow> ('i word, 'd) RowBlockContainer outcome"
where
  "row_extra row s =
     map_outcome (\<lambda>ex. s\<lparr>c_extra := ex\<rparr>) (forward Push_unit_row 0 (r_extra row) (c_extra s))"

definition row_offset :: "('i::len word, 'd) RowBlockContainer \<Rightarrow> ('i word, 'd) RowBlockContainer outcome" where
  "row_offset s = Done (s\<lparr>c_offset := c_offset s @ [length (c_index s)]\<rparr>)"

definition Push_row ::
  "('j::len word, 'd) Row \<Rightarrow> ('i::len word, 'd) RowBlockContainer \<Rightarrow> ('i word, 'd) RowBlockContainer outcome"
where
  "Push_row row =
     steps [row_label row, row_weight row, row_qid row, row_field row, row_index row,
            row_value row, row_extra row, row_offset]"

text \<open>
  \<^verbatim>\<open>RowBlockContainer::Push(RowBlock<I, DType> batch)\<close>, statement by statement. The local
  \<^verbatim>\<open>size_t size = label.size();\<close> is the argument \<open>sz\<close> of the steps that use it.
\<close>

definition block_label ::
  "('j::len word, 'd) RowBlock \<Rightarrow> ('i::len word, 'd) RowBlockContainer \<Rightarrow> ('i word, 'd) RowBlockContainer outcome"
where
  "block_label batch s =
     map_outcome (\<lambda>v. s\<lparr>c_label := v\<rparr>)
       (append_n (b_size batch * c_label_width s) (b_label batch) (c_label s))"

definition block_weight ::
  "('j::len word, 'd) RowBlock \<Rightarrow> ('i::len word, 'd) RowBlockContainer \<Rightarrow> ('i word, 'd) RowBlockContainer outcome"
where
  "block_weight batch s =
     (case b_weight batch of
        None \<Rightarrow> Done s
      | Some src \<Rightarrow> map_outcome (\<lambda>v. s\<lparr>c_weight := v\<rparr>) (append_n (b_size batch) src (c_weight s)))"

definition block_qid ::
  "('j::len word, 'd) RowBlock \<Rightarrow> ('i::len word, 'd) RowBlockContainer \<Rightarrow> ('i word, 'd) RowBlockContainer outcome"
where
  "block_qid batch s =
     (case b_qid batch of
        None \<Rightarrow> Done s
      | Some src \<Rightarrow> map_outcome (\<lambda>v. s\<lparr>c_qid := v\<rparr>) (append_n (b_size batch) src (c_qid s)))"

definition block_field ::
  "('j::len word, 'd) RowBlock \<Rightarrow> nat \<Rightarrow> ('i::len word, 'd) RowBlockContainer \<Rightarrow> ('i word, 'd) RowBlockContainer outcome"
where
  "block_field batch ndata s =
     (case b_field batch of
        None \<Rightarrow> Done s
      | Some src \<Rightarrow>
          if c_offset s = [] then Undefined
          else map_outcome (\<lambda>(v, m). s\<lparr>c_field := v, c_max_field := m\<rparr>)
                 (narrow_write ndata src (last (c_offset s))
                    (grow ndata (c_field s), c_max_field s)))"

definition block_index ::
  "('j::len word, 'd) RowBlock \<Rightarrow> nat \<Rightarrow> ('i::len word, 'd) RowBlockContainer \<Rightarrow> ('i word, 'd) RowBlockContainer outcome"
where
  "block_index batch ndata s =
     (if c_offset s = [] then Undefined
      else map_outcome (\<lambda>(v, m). s\<lparr>c_index := v, c_max_index := m\<rparr>)
             (narrow_write ndata (b_index batch) (last (c_offset s))
                (grow ndata (c_index s), c_max_index s)))"

definition block_value ::
  "('j::len word, 'd) RowBlock \<Rightarrow> nat \<Rightarrow> ('i::len word, 'd) RowBlockContainer \<Rightarrow> ('i word, 'd) RowBlockContainer outcome"
where
  "block_value batch ndata s =
     (case b_value batch of
        None \<Rightarrow> Done s
      | Some src \<Rightarrow> map_outcome (\<lambda>v. s\<lparr>c_value := v\<rparr>) (append_n ndata src (c_value s)))"

definition block_offset ::
  "('j::len word, 'd) RowBlock \<Rightarrow> nat \<Rightarrow> ('i::len word, 'd) RowBlockContainer \<Rightarrow> ('i word, 'd) RowBlockContainer outcome"
where
  "block_offset batch sz s =
     map_outcome (\<lambda>off. s\<lparr>c_offset := off\<rparr>)
       (shift_offsets sz (b_size batch) (b_offset batch) (c_offset s))"

definition block_extra ::
  "('j::len word, 'd) RowBlock \<Rightarrow> nat \<Rightarrow> ('i::len word, 'd) RowBlockContainer \<Rightarrow> ('i word, 'd) RowBlockContainer outcome"
where
  "block_extra batch sz s =
     map_outcome (\<lambda>ex. s\<lparr>c_extra := ex\<rparr>)
       (forward (\<lambda>k. Push_unit_block k sz) 0 (b_extra batch) (c_extra s))"

definition Push_block ::
  "('j::len word, 'd) RowBlock \<Rightarrow> ('i::len word, 'd) RowBlockContainer \<Rightarrow> ('i word, 'd) RowBlockContainer outcome"
where
  "Push_block batch s =
     (let sz = length (c_label s) in
      and_then (steps [block_label batch, block_weight batch, block_qid batch] s)
        (\<lambda>s. case batch_ndata (b_size batch) (b_offset batch) of
                None \<Rightarrow> Undefined
              | Some ndata \<Rightarrow>
                  steps [block_field batch ndata, block_index batch ndata, block_value batch ndata,
                         block_offset batch sz, block_extra batch sz] s))"

section \<open>GetBlock\<close>

text \<open>
  \<^verbatim>\<open>GetBlock\<close> is \<^verbatim>\<open>const\<close>: \<open>None\<close> when it has no defined behaviour (\<^verbatim>\<open>offset.back()\<close> of an
  empty vector, a division by a zero \<^verbatim>\<open>label_width\<close>), \<open>Some (Inl e)\<close> when a check fails,
  \<open>Some (Inr view)\<close> when it returns. The view is the \<^verbatim>\<open>RowBlock\<close> of the borrowed arrays;
  \<^verbatim>\<open>BeginPtr\<close> of an empty vector is \<^verbatim>\<open>NULL\<close>.
\<close>

definition BeginPtr :: "'a list \<Rightarrow> 'a list option" where
  "BeginPtr v = (if v = [] then None else Some v)"

definition GetBlock_unit :: "('x, 'd) UnitBlockContainer \<Rightarrow> (error + ('x, 'd) UnitBlock) option" where
  "GetBlock_unit u =
     (if u_offset u = [] then None
      else if last (u_offset u) \<noteq> length (u_index u) then Some (Inl ValidationError)
      else if \<not> (last (u_offset u) = length (u_value u) \<or> length (u_value u) = 0)
        then Some (Inl ValidationError)
      else Some (Inr \<lparr>k_size = length (u_offset u) - 1, k_offset = u_offset u,
                      k_index = u_index u, k_value = BeginPtr (u_value u)\<rparr>))"

text \<open>\<^verbatim>\<open>for (int i = 0; i < extra.size(); ++i) data.extra[i] = extra[i].GetBlock();\<close>\<close>

fun GetBlock_extra :: "('x, 'd) UnitBlockContainer list \<Rightarrow> (error + ('x, 'd) UnitBlock list) option" where
  "GetBlock_extra [] = Some (Inr [])"
| "GetBlock_extra (u # us) =
     (case GetBlock_unit u of
        None \<Rightarrow> None
      | Some (Inl e) \<Rightarrow> Some (Inl e)
      | Some (Inr k) \<Rightarrow>
          (case GetBlock_extra us of
             None \<Rightarrow> None
           | Some (Inl e) \<Rightarrow> Some (Inl e)
           | Some (Inr ks) \<Rightarrow> Some (Inr (k # ks))))"

definition GetBlock :: "('x, 'd) RowBlockContainer \<Rightarrow> (error + ('x, 'd) RowBlock) option" where
  "GetBlock s =
     (if c_label s \<noteq> [] \<and> c_label_width s = 0 then None
      else if c_label s \<noteq> [] \<and> length (c_label s) div c_label_width s + 1 \<noteq> length (c_offset s)
        then Some (Inl ValidationError)
      else if c_offset s = [] then None
      else if last (c_offset s) \<noteq> length (c_index s) then Some (Inl ValidationError)
      else if \<not> (last (c_offset s) = length (c_value s) \<or> length (c_value s) = 0)
        then Some (Inl ValidationError)
      else (case GetBlock_extra (c_extra s) of
              None \<Rightarrow> None
            | Some (Inl e) \<Rightarrow> Some (Inl e)
            | Some (Inr ks) \<Rightarrow>
                Some (Inr \<lparr>b_size = length (c_offset s) - 1, b_label_width = c_label_width s,
                           b_offset = c_offset s, b_label = c_label s,
                           b_weight = BeginPtr (c_weight s), b_qid = BeginPtr (c_qid s),
                           b_field = BeginPtr (c_field s), b_index = c_index s,
                           b_value = BeginPtr (c_value s), b_extra = ks\<rparr>)))"

section \<open>Save and Load\<close>

text \<open>
  Modelled from the spec: \<^verbatim>\<open>Stream\<close> is declared in \<^verbatim>\<open>dmlc/io.h\<close>, which is not among the
  sources. The spec: an array is written length-prefixed, a scalar with its fixed width.
  A stream is the list of the scalars it holds, each with the type it was written as:
  a 64-bit count, offset or qid (\<open>U64\<close>), a \<^verbatim>\<open>DType\<close> or \<^verbatim>\<open>real_t\<close> value (\<open>Real\<close>), an
  \<^verbatim>\<open>IndexType\<close> value (\<open>Idx\<close>). Reading an array fails (\<^verbatim>\<open>false\<close>) when the count is missing,
  when fewer elements follow than the count announces, or when what follows is not of
  the element type. The spec does not say what a failed read leaves in its
  destination; the model leaves the destination as it was.
\<close>

datatype ('x, 'd) cell = U64 nat | Real 'd | Idx 'x

type_synonym ('x, 'd) stream = "('x, 'd) cell list"

fun get_U64 :: "('x, 'd) cell \<Rightarrow> nat option" where
  "get_U64 (U64 n) = Some n"
| "get_U64 _ = None"

fun get_Real :: "('x, 'd) cell \<Rightarrow> 'd option" where
  "get_Real (Real r) = Some r"
| "get_Real _ = None"

fun get_Idx :: "('x, 'd) cell \<Rightarrow> 'x option" where
  "get_Idx (Idx i) = Some i"
| "get_Idx _ = None"

definition Write_vec :: "('a \<Rightarrow> ('x, 'd) cell) \<Rightarrow> 'a list \<Rightarrow> ('x, 'd) stream \<Rightarrow> ('x, 'd) stream" where
  "Write_vec mk v fo = fo @ U64 (length v) # map mk v"

definition Write_raw :: "('a \<Rightarrow> ('x, 'd) cell) \<Rightarrow> 'a \<Rightarrow> ('x, 'd) stream \<Rightarrow> ('x, 'd) stream" where
  "Write_raw mk x fo = fo @ [mk x]"

fun Read_vec :: "(('x, 'd) cell \<Rightarrow> 'a option) \<Rightarrow> ('x, 'd) stream \<Rightarrow> ('a list \<times> ('x, 'd) stream) option" where
  "Read_vec get (U64 n # fi) =
     (if n \<le> length fi
      then (case those (map get (take n fi)) of
              None \<Rightarrow> None
            | Some v \<Rightarrow> Some (v, drop n fi))
      else None)"
| "Read_vec get _ = None"

fun Read_raw :: "(('x, 'd) cell \<Rightarrow> 'a option) \<Rightarrow> ('x, 'd) stream \<Rightarrow> ('a \<times> ('x, 'd) stream) option" where
  "Read_raw get (c # fi) = (case get c of None \<Rightarrow> None | Some x \<Rightarrow> Some (x, fi))"
| "Read_raw get [] = None"

text \<open>\<^verbatim>\<open>RowBlockContainer::Save(Stream *fo) const\<close>: the stream after the nine writes.\<close>

definition Save :: "('x, 'd) RowBlockContainer \<Rightarrow> ('x, 'd) stream \<Rightarrow> ('x, 'd) stream" where
  "Save s fo =
     fold (\<lambda>write. write)
       [Write_vec U64 (c_offset s), Write_vec Real (c_label s), Write_vec Real (c_weight s),
        Write_vec U64 (c_qid s), Write_vec Idx (c_field s), Write_vec Idx (c_index s),
        Write_vec Real (c_value s), Write_raw Idx (c_max_field s), Write_raw Idx (c_max_index s)]
       fo"

text \<open>
  \<^verbatim>\<open>RowBlockContainer::Load(Stream *fi)\<close>. A read is a step on the container and the
  unread rest of the stream; \<open>load_checked\<close> runs the reads that stand inside a
  \<^verbatim>\<open>CHECK(...) << "Bad RowBlock format"\<close>. The result is \<open>Inr\<close> the returned boolean or
  \<open>Inl\<close> the error, with the container and the stream as the call leaves them.
\<close>

definition read_into ::
  "(('x, 'd) stream \<Rightarrow> ('a \<times> ('x, 'd) stream) option) \<Rightarrow> ('a \<Rightarrow> 'c \<Rightarrow> 'c) \<Rightarrow>
   'c \<times> ('x, 'd) stream \<Rightarrow> ('c \<times> ('x, 'd) stream) option"
where
  "read_into rd upd = (\<lambda>(s, fi). map_option (\<lambda>(v, fi'). (upd v s, fi')) (rd fi))"

fun load_checked ::
  "('c \<times> ('x, 'd) stream \<Rightarrow> ('c \<times> ('x, 'd) stream) option) list \<Rightarrow>
   'c \<times> ('x, 'd) stream \<Rightarrow> (error + bool) \<times> 'c \<times> ('x, 'd) stream"
where
  "load_checked [] st = (Inr True, st)"
| "load_checked (rd # rds) st =
     (case rd st of
        None \<Rightarrow> (Inl FormatError, st)
      | Some st' \<Rightarrow> load_checked rds st')"

definition Load ::
  "('x, 'd) RowBlockContainer \<Rightarrow> ('x, 'd) stream \<Rightarrow>
   (error + bool) \<times> ('x, 'd) RowBlockContainer \<times> ('x, 'd) stream"
where
  "Load s fi =
     (case read_into (Read_vec get_U64) (\<lambda>v s. s\<lparr>c_offset := v\<rparr>) (s, fi) of
        None \<Rightarrow> (Inr False, s, fi)
      | Some st \<Rightarrow>
          load_checked
            [read_into (Read_vec get_Real) (\<lambda>v s. s\<lparr>c_label := v\<rparr>),
             read_into (Read_vec get_Real) (\<lambda>v s. s\<lparr>c_weight := v\<rparr>),
             read_into (Read_vec get_U64) (\<lambda>v s. s\<lparr>c_qid := v\<rparr>),
             read_into (Read_vec get_Idx) (\<lambda>v s. s\<lparr>c_field := v\<rparr>),
             read_into (Read_vec get_Idx) (\<lambda>v s. s\<lparr>c_index := v\<rparr>),
             read_into (Read_vec get_Real) (\<lambda>v s. s\<lparr>c_value := v\<rparr>),
             read_into (Read_raw get_Idx) (\<lambda>x s. s\<lparr>c_max_field := x\<rparr>),
             read_into (Read_raw get_Idx) (\<lambda>x s. s\<lparr>c_max_index := x\<rparr>)] st)"

section \<open>Appends and sequences of appends\<close>

text \<open>The two overloads of \<^verbatim>\<open>RowBlockContainer::Push\<close>, and a sequence of calls.\<close>

datatype ('x, 'd) append = Push_Row "('x, 'd) Row" | Push_RowBlock "('x, 'd) RowBlock"

fun Push ::
  "('j::len word, 'd) append \<Rightarrow> ('i::len word, 'd) RowBlockContainer \<Rightarrow> ('i word, 'd) RowBlockContainer outcome"
where
  "Push (Push_Row row) = Push_row row"
| "Push (Push_RowBlock batch) = Push_block batch"

definition Push_all ::
  "('j::len word, 'd) append list \<Rightarrow> ('i::len word, 'd) RowBlockContainer \<Rightarrow> ('i word, 'd) RowBlockContainer outcome"
where
  "Push_all as = steps (map Push as)"











section \<open>The block that a sequence of rows amounts to\<close>






section \<open>The invariants of the specification and the checks of GetBlock\<close>

text \<open>
  The six invariants, in the words of the specification (section 3): \<^verbatim>\<open>offset\<close> has
  \<^verbatim>\<open>size + 1\<close> entries and is non-decreasing (1); its last entry is the length of \<^verbatim>\<open>index\<close>
  (2); \<^verbatim>\<open>value\<close> is as long as \<^verbatim>\<open>index\<close> or empty (3); \<^verbatim>\<open>label\<close> has \<^verbatim>\<open>size * label_width\<close>
  entries whenever it has any (4); \<^verbatim>\<open>field\<close> is as long as \<^verbatim>\<open>index\<close> or empty (5); every
  extra channel satisfies (1) to (3) and has as many rows as the container (6).
\<close>

definition spec_unit_invariants :: "('x, 'd) UnitBlockContainer \<Rightarrow> bool" where
  "spec_unit_invariants u \<longleftrightarrow>
     u_offset u \<noteq> [] \<and> sorted (u_offset u) \<and>
     last (u_offset u) = length (u_index u) \<and>
     (length (u_value u) = length (u_index u) \<or> length (u_value u) = 0)"

definition spec_invariants :: "('x, 'd) RowBlockContainer \<Rightarrow> bool" where
  "spec_invariants s \<longleftrightarrow>
     c_offset s \<noteq> [] \<and> sorted (c_offset s) \<and>
     last (c_offset s) = length (c_index s) \<and>
     (length (c_value s) = length (c_index s) \<or> length (c_value s) = 0) \<and>
     (c_label s \<noteq> [] \<longrightarrow> length (c_label s) = Size s * c_label_width s) \<and>
     (length (c_field s) = length (c_index s) \<or> length (c_field s) = 0) \<and>
     list_all (\<lambda>u. spec_unit_invariants u \<and> length (u_offset u) - 1 = Size s) (c_extra s)"

text \<open>
  What \<^verbatim>\<open>GetBlock\<close> compares: the three \<^verbatim>\<open>CHECK\<close>s of \<^verbatim>\<open>RowBlockContainer::GetBlock\<close> and,
  for every extra channel, the two of \<^verbatim>\<open>UnitBlockContainer::GetBlock\<close>.
\<close>

definition GetBlock_unit_checks :: "('x, 'd) UnitBlockContainer \<Rightarrow> bool" where
  "GetBlock_unit_checks u \<longleftrightarrow>
     last (u_offset u) = length (u_index u) \<and>
     (last (u_offset u) = length (u_value u) \<or> length (u_value u) = 0)"

definition GetBlock_checks :: "('x, 'd) RowBlockContainer \<Rightarrow> bool" where
  "GetBlock_checks s \<longleftrightarrow>
     (c_label s = [] \<or> length (c_label s) div c_label_width s + 1 = length (c_offset s)) \<and>
     last (c_offset s) = length (c_index s) \<and>
     (last (c_offset s) = length (c_value s) \<or> length (c_value s) = 0) \<and>
     list_all GetBlock_unit_checks (c_extra s)"

section \<open>Example containers, rows and blocks\<close>

text \<open>
  Concrete states and inputs at which the theorems below are evaluated: 32-bit and
  8-bit index types, \<open>real\<close> for \<^verbatim>\<open>real_t\<close>.
\<close>

text \<open>One row with two labels in a container of label width 2; invariants 1 to 6 hold.\<close>

definition wide_container :: "(32 word, real) RowBlockContainer" where
  "wide_container =
     \<lparr>c_offset = [0, 1], c_label_width = 2, c_label = [1, 0], c_weight = [1], c_qid = [0],
      c_field = [], c_index = [5], c_value = [], c_max_field = 0, c_max_index = 5,
      c_extra = []\<rparr>"

text \<open>A container with one extra channel; the channel and the container hold one row each.\<close>

definition channel_container :: "(32 word, real) RowBlockContainer" where
  "channel_container =
     \<lparr>c_offset = [0, 1], c_label_width = 1, c_label = [1], c_weight = [1], c_qid = [0],
      c_field = [], c_index = [9], c_value = [], c_max_field = 0, c_max_index = 9,
      c_extra = [\<lparr>u_offset = [0, 1], u_index = [3], u_value = [], u_max_index = 3\<rparr>]\<rparr>"


text \<open>
  One row; \<^verbatim>\<open>field\<close> has two entries for one index entry, and the extra channel has no
  row: invariants 5 and 6 fail.
\<close>

definition skewed_container :: "(32 word, real) RowBlockContainer" where
  "skewed_container =
     \<lparr>c_offset = [0, 1], c_label_width = 1, c_label = [1], c_weight = [1], c_qid = [0],
      c_field = [7, 7], c_index = [5], c_value = [], c_max_field = 7, c_max_index = 5,
      c_extra = [\<lparr>u_offset = [0], u_index = [], u_value = [], u_max_index = 0\<rparr>]\<rparr>"




text \<open>A block of one row with the index 9, no weight, qid, field, value or extra channel.\<close>

definition example_block :: "(64 word, real) RowBlock" where
  "example_block =
     \<lparr>b_size = 1, b_label_width = 1, b_offset = [0, 1], b_label = [1], b_weight = None,
      b_qid = None, b_field = None, b_index = [9], b_value = None, b_extra = []\<rparr>"



text \<open>A block of one row with two labels, for a container of label width 2.\<close>

definition wide_block :: "(64 word, real) RowBlock" where
  "wide_block =
     \<lparr>b_size = 1, b_label_width = 2, b_offset = [0, 1], b_label = [0, 1], b_weight = None,
      b_qid = None, b_field = None, b_index = [7], b_value = None, b_extra = []\<rparr>"

text \<open>
  A container with one row of two entries and no label (\<^verbatim>\<open>GetBlock\<close> skips its label check
  when \<^verbatim>\<open>label\<close> is empty).
\<close>

definition unlabelled_container :: "(32 word, real) RowBlockContainer" where
  "unlabelled_container =
     \<lparr>c_offset = [0, 2], c_label_width = 1, c_label = [], c_weight = [], c_qid = [],
      c_field = [], c_index = [7, 8], c_value = [], c_max_field = 0, c_max_index = 8,
      c_extra = []\<rparr>"




section \<open>Load: what the reads leave alone\<close>

lemma load_checked_frame:
  assumes "\<And>rd st st'. rd \<in> set rds \<Longrightarrow> rd st = Some st' \<Longrightarrow> P (fst st') = P (fst st)"
  shows "P (fst (snd (load_checked rds st))) = P (fst st)"
  using assms
proof (induction rds arbitrary: st)
  case Nil
  then show ?case by simp
next
  case (Cons rd rds)
  show ?case
  proof (cases "rd st")
    case None
    then show ?thesis by simp
  next
    case (Some st')
    have "P (fst (snd (load_checked rds st'))) = P (fst st')"
      by (rule Cons.IH) (auto intro: Cons.prems)
    moreover have "P (fst st') = P (fst st)"
      using Cons.prems[of rd st st'] Some by simp
    ultimately show ?thesis using Some by simp
  qed
qed

lemma Load_label_width: "c_label_width (fst (snd (Load s fi))) = c_label_width s"
proof (cases "read_into (Read_vec get_U64) (\<lambda>v s. s\<lparr>c_offset := v\<rparr>) (s, fi)")
  case None
  then show ?thesis by (simp add: Load_def)
next
  case (Some st)
  have a: "c_label_width (fst st) = c_label_width s"
    using Some by (auto simp: read_into_def)
  have "c_label_width (fst (snd (Load s fi))) = c_label_width (fst st)"
    unfolding Load_def Some option.case
    by (rule load_checked_frame) (auto simp: read_into_def)
  with a show ?thesis by simp
qed

text \<open>
  C10. \<^verbatim>\<open>label_width\<close> is left unchanged by \<^verbatim>\<open>Clear\<close>, \<^verbatim>\<open>Save\<close> and \<^verbatim>\<open>Load\<close>: \<^verbatim>\<open>Clear\<close> keeps
  it, what \<^verbatim>\<open>Save\<close> writes does not depend on it (and \<^verbatim>\<open>Save\<close>, a \<^verbatim>\<open>const\<close> member, changes
  no field), and after \<^verbatim>\<open>Load\<close>, whatever the stream holds and however the call ends,
  the container has the \<^verbatim>\<open>label_width\<close> it had before.
\<close>

theorem label_width_frame:
  "c_label_width (Clear s) = c_label_width s \<and>
   Save (s\<lparr>c_label_width := w\<rparr>) fo = Save s fo \<and>
   c_label_width (fst (snd (Load s fi))) = c_label_width s"
  by (simp add: Clear_def Save_def Load_label_width)

section \<open>Save and Load: the round trip\<close>

lemma those_map_get:
  assumes "\<And>x. get (mk x) = Some x"
  shows "those (map get (map mk v)) = Some v"
  by (induction v) (simp_all add: assms)

lemma Read_vec_Write_vec:
  assumes "\<And>x. get (mk x) = Some x"
  shows "Read_vec get (Write_vec mk v [] @ rest) = Some (v, rest)"
  using those_map_get[of get mk v, OF assms] by (simp add: Write_vec_def)

lemma Read_raw_Write_raw:
  assumes "\<And>x. get (mk x) = Some x"
  shows "Read_raw get (Write_raw mk x [] @ rest) = Some (x, rest)"
  by (simp add: Write_raw_def assms)

lemma Save_cells:
  "Save s [] @ rest =
     Write_vec U64 (c_offset s) [] @ Write_vec Real (c_label s) [] @ Write_vec Real (c_weight s) [] @
     Write_vec U64 (c_qid s) [] @ Write_vec Idx (c_field s) [] @ Write_vec Idx (c_index s) [] @
     Write_vec Real (c_value s) [] @ Write_raw Idx (c_max_field s) [] @
     Write_raw Idx (c_max_index s) [] @ rest"
  by (simp add: Save_def Write_vec_def Write_raw_def)

lemma Load_Save:
  "Load t (Save s [] @ rest) =
     (Inr True,
      t\<lparr>c_offset := c_offset s, c_label := c_label s, c_weight := c_weight s, c_qid := c_qid s,
        c_field := c_field s, c_index := c_index s, c_value := c_value s,
        c_max_field := c_max_field s, c_max_index := c_max_index s\<rparr>,
      rest)"
  unfolding Save_cells Load_def
  by (simp add: read_into_def Read_vec_Write_vec Read_raw_Write_raw)

text \<open>
  C3, as stated, fails: the record does not carry \<^verbatim>\<open>label_width\<close>. Saving the container
  of label width 2 and loading it into a freshly constructed container returns true and
  leaves the label width 1 of the constructor.
\<close>

theorem roundtrip_label_width_counterexample:
  "fst (Load RowBlockContainer_new (Save wide_container [])) = Inr True \<and>
   c_label_width (fst (snd (Load RowBlockContainer_new (Save wide_container [])))) = 1 \<and>
   c_label_width wide_container = 2"
  by (simp add: wide_container_def Save_def Write_vec_def Write_raw_def Load_def read_into_def
      RowBlockContainer_new_def)

text \<open>
  C3, amended. For every container, \<^verbatim>\<open>Save\<close> on an empty stream and then \<^verbatim>\<open>Load\<close> from that
  stream into a freshly constructed container returns true, consumes the stream, and
  yields the original's \<^verbatim>\<open>offset\<close> (hence its size), \<^verbatim>\<open>label\<close>, \<^verbatim>\<open>weight\<close>, \<^verbatim>\<open>qid\<close>, \<^verbatim>\<open>field\<close>,
  \<^verbatim>\<open>index\<close>, \<^verbatim>\<open>value\<close>, \<^verbatim>\<open>max_field\<close> and \<^verbatim>\<open>max_index\<close>, with no extra channel; the
  \<^verbatim>\<open>label_width\<close> is the fresh container's own, 1.
\<close>

theorem Save_Load_roundtrip:
  "Load RowBlockContainer_new (Save s []) =
     (Inr True, s\<lparr>c_label_width := 1, c_extra := []\<rparr>, [])"
  using Load_Save[of RowBlockContainer_new s "[]"] by (simp add: RowBlockContainer_new_def)

text \<open>
  C7, as stated, fails: \<^verbatim>\<open>Load\<close> does not touch the extra channels. Loading a record into
  the container whose channel holds one row leaves that row in the channel.
\<close>

theorem Load_keeps_extra_counterexample:
  "fst (Load channel_container (Save wide_container [])) = Inr True \<and>
   c_extra (fst (snd (Load channel_container (Save wide_container [])))) =
     [\<lparr>u_offset = [0, 1], u_index = [3], u_value = [], u_max_index = 3\<rparr>]"
  by (simp add: wide_container_def channel_container_def Save_def Write_vec_def Write_raw_def
      Load_def read_into_def)

text \<open>
  C7, amended. For every prior state \<open>t\<close> and every stream that starts with one record
  (what \<^verbatim>\<open>Save\<close> writes for some \<open>s\<close>), \<^verbatim>\<open>Load\<close> returns true, leaves the rest of the stream
  unread, and the container is the decoded record with two members of the prior state:
  the seven arrays and the two maxima are replaced, not merged; \<^verbatim>\<open>label_width\<close> and the
  extra channels are as they were before the call.
\<close>

theorem Load_replaces_primary:
  "Load t (Save s [] @ rest) =
     (Inr True, s\<lparr>c_label_width := c_label_width t, c_extra := c_extra t\<rparr>, rest)"
  unfolding Load_Save by (cases s, cases t) simp

section \<open>Load: end of stream and bad format\<close>












section \<open>Outcomes and loops\<close>







subsection \<open>The loop that pushes narrowed entries\<close>




subsection \<open>The loop that writes narrowed entries in place\<close>




subsection \<open>Copies and offsets\<close>





lemma write_offsets_Done:
  "write_offsets n i p shift boff off = Done off' \<Longrightarrow>
     (n = 0 \<or> (i + n < length boff \<and> p + i + n \<le> length off)) \<and>
     off' = take (p + i) off @ map (\<lambda>k. shift + boff ! Suc k - boff ! 0) [i..<i + n] @
            drop (p + i + n) off"
proof (induction n i p shift boff off rule: write_offsets.induct)
  case (1 i p shift boff off)
  then show ?case by simp
next
  case (2 n i p shift boff off)
  let ?off = "off[p + i := shift + boff ! Suc i - boff ! 0]"
  from "2.prems" have c: "Suc i < length boff" "p + i < length off"
    and rec: "write_offsets n (Suc i) p shift boff ?off = Done off'"
    by (auto split: if_splits)
  from "2.IH"[OF _ rec] c have ih:
    "(n = 0 \<or> (Suc i + n < length boff \<and> p + Suc i + n \<le> length ?off))"
    "off' = take (p + Suc i) ?off @ map (\<lambda>k. shift + boff ! Suc k - boff ! 0) [Suc i..<Suc i + n] @
            drop (p + Suc i + n) ?off" by auto
  have t: "take (p + Suc i) ?off = take (p + i) off @ [shift + boff ! Suc i - boff ! 0]"
    using c by (simp add: take_Suc_conv_app_nth)
  have u: "[i..<i + Suc n] = i # [Suc i..<Suc i + n]"
    by (simp add: upt_conv_Cons)
  show ?case using ih c unfolding t u by auto
qed




subsection \<open>Forwarding to the extra channels\<close>





section \<open>GetBlock: what is validated\<close>

lemma GetBlock_unit_cases:
  "GetBlock_unit u = None \<and> u_offset u = [] \<or>
   GetBlock_unit u = Some (Inl ValidationError) \<and> u_offset u \<noteq> [] \<and> \<not> GetBlock_unit_checks u \<or>
   (\<exists>k. GetBlock_unit u = Some (Inr k)) \<and> u_offset u \<noteq> [] \<and> GetBlock_unit_checks u"
  by (auto simp: GetBlock_unit_def GetBlock_unit_checks_def)

lemma GetBlock_extra_cases:
  "GetBlock_extra us = None \<or>
   GetBlock_extra us = Some (Inl ValidationError) \<and> \<not> list_all GetBlock_unit_checks us \<or>
   (\<exists>ks. GetBlock_extra us = Some (Inr ks)) \<and> list_all GetBlock_unit_checks us"
proof (induction us)
  case Nil
  then show ?case by simp
next
  case (Cons u us)
  from GetBlock_unit_cases[of u] Cons show ?case
    by (elim disjE conjE exE) simp_all
qed

lemma GetBlock_extra_invariants:
  "list_all spec_unit_invariants us \<Longrightarrow> \<exists>ks. GetBlock_extra us = Some (Inr ks)"
proof (induction us)
  case Nil
  then show ?case by simp
next
  case (Cons u us)
  then obtain ks where ks: "GetBlock_extra us = Some (Inr ks)" by auto
  from Cons.prems have "spec_unit_invariants u" by simp
  then have "\<exists>k. GetBlock_unit u = Some (Inr k)"
    by (auto simp: GetBlock_unit_def spec_unit_invariants_def)
  with ks show ?case by auto
qed

lemma GetBlock_error_iff:
  assumes "GetBlock s \<noteq> None"
  shows "GetBlock s = Some (Inl ValidationError) \<longleftrightarrow> \<not> GetBlock_checks s"
  using assms GetBlock_extra_cases[of "c_extra s"]
  by (auto simp: GetBlock_def GetBlock_checks_def split: if_splits)

lemma GetBlock_invariants:
  assumes "spec_invariants s"
  shows "\<exists>view. GetBlock s = Some (Inr view)"
proof -
  from assms have ex: "list_all spec_unit_invariants (c_extra s)"
    by (auto simp: spec_invariants_def list_all_iff)
  from GetBlock_extra_invariants[OF ex] obtain ks where ks: "GetBlock_extra (c_extra s) = Some (Inr ks)" ..
  from assms have off: "c_offset s \<noteq> []" "last (c_offset s) = length (c_index s)"
    "length (c_value s) = length (c_index s) \<or> length (c_value s) = 0"
    by (auto simp: spec_invariants_def)
  have lab: "c_label s \<noteq> [] \<Longrightarrow> c_label_width s \<noteq> 0 \<and> length (c_label s) div c_label_width s + 1 = length (c_offset s)"
  proof -
    assume l: "c_label s \<noteq> []"
    with assms have eq: "length (c_label s) = Size s * c_label_width s" by (simp add: spec_invariants_def)
    with l have "c_label_width s \<noteq> 0" by (cases "c_label_width s") auto
    moreover from this eq have "length (c_label s) div c_label_width s = Size s" by simp
    ultimately show ?thesis using off(1) by (cases "c_offset s") (auto simp: Size_def)
  qed
  show ?thesis
  proof (cases "c_label s = []")
    case True
    with ks off show ?thesis by (auto simp: GetBlock_def)
  next
    case False
    from lab[OF False] have "c_label_width s \<noteq> 0"
      "length (c_label s) div c_label_width s + 1 = length (c_offset s)" by simp_all
    with False ks off show ?thesis by (auto simp: GetBlock_def)
  qed
qed

text \<open>
  C2, amended. \<^verbatim>\<open>GetBlock\<close> compares three things, and two for every extra channel: if
  \<^verbatim>\<open>label\<close> is not empty, \<^verbatim>\<open>label.size() / label_width + 1\<close> with \<^verbatim>\<open>offset.size()\<close>; the last
  offset with the length of \<^verbatim>\<open>index\<close>; the last offset with the length of \<^verbatim>\<open>value\<close>, unless
  \<^verbatim>\<open>value\<close> is empty. Whenever the call has a defined behaviour, it fails with
  ValidationError exactly when one of these comparisons fails, and for every state that
  satisfies invariants 1 to 6 it returns a view. The length of \<^verbatim>\<open>field\<close>, the row count of
  an extra channel and the order of the offsets are not validated.
\<close>

theorem GetBlock_validates:
  "(GetBlock s \<noteq> None \<longrightarrow> (GetBlock s = Some (Inl ValidationError) \<longleftrightarrow> \<not> GetBlock_checks s)) \<and>
   (spec_invariants s \<longrightarrow> (\<exists>view. GetBlock s = Some (Inr view)))"
  using GetBlock_error_iff GetBlock_invariants by blast

theorem GetBlock_validates_witness:
  "GetBlock wide_container \<noteq> None \<and> spec_invariants wide_container \<and>
   (GetBlock wide_container = Some (Inl ValidationError) \<longleftrightarrow> \<not> GetBlock_checks wide_container) \<and>
   (\<exists>view. GetBlock wide_container = Some (Inr view))"
proof -
  have a: "spec_invariants wide_container"
    by (simp add: spec_invariants_def wide_container_def Size_def)
  have b: "GetBlock wide_container \<noteq> None"
    by (simp add: GetBlock_def wide_container_def)
  from a b GetBlock_validates[of wide_container] show ?thesis by blast
qed

text \<open>
  C2, as stated, fails: in this state \<^verbatim>\<open>field\<close> is neither empty nor as long as \<^verbatim>\<open>index\<close>,
  and the extra channel has no row while the container has one; \<^verbatim>\<open>GetBlock\<close> returns a view.
\<close>

theorem GetBlock_skewed_counterexample:
  "length (c_field skewed_container) \<noteq> 0 \<and>
   length (c_field skewed_container) \<noteq> length (c_index skewed_container) \<and>
   length (u_offset (hd (c_extra skewed_container))) - 1 \<noteq> Size skewed_container \<and>
   GetBlock skewed_container =
     Some (Inr \<lparr>b_size = 1, b_label_width = 1, b_offset = [0, 1], b_label = [1],
                b_weight = Some [1], b_qid = Some [0], b_field = Some [7, 7], b_index = [5],
                b_value = None,
                b_extra = [\<lparr>k_size = 0, k_offset = [0], k_index = [], k_value = None\<rparr>]\<rparr>)"
  by (simp add: skewed_container_def GetBlock_def GetBlock_unit_def BeginPtr_def Size_def)

section \<open>Push of a row, statement by statement\<close>











section \<open>Push of a block, statement by statement\<close>











section \<open>The running maximum\<close>



section \<open>Evaluating a push on concrete inputs\<close>

lemma narrow_push_Nil: "narrow_push n [] (v, m) = (if n = 0 then Done (v, m) else Undefined)"
  by (cases n) simp_all

lemma narrow_push_Cons:
  "narrow_push n (x # src) (v, m) =
     (if n = 0 then Done (v, m)
      else case Narrow x of None \<Rightarrow> Raised OverflowError (v, m)
           | Some findex \<Rightarrow> narrow_push (n - 1) src (v @ [findex], max m findex))"
  by (cases n) (simp_all split: option.splits)

lemma narrow_write_Nil: "narrow_write n [] p (v, m) = (if n = 0 then Done (v, m) else Undefined)"
  by (cases n) simp_all

lemma narrow_write_Cons:
  "narrow_write n (x # src) p (v, m) =
     (if n = 0 then Done (v, m)
      else case Narrow x of None \<Rightarrow> Raised OverflowError (v, m)
           | Some findex \<Rightarrow>
               if p < length v then narrow_write (n - 1) src (Suc p) (v[p := findex], max m findex)
               else Undefined)"
  by (cases n) (simp_all split: option.splits)

lemma unat_minus_1: "unat (- 1 :: 'i::len word) = 2 ^ LENGTH('i) - 1"
  by (simp add: unsigned_minus_1_eq_mask mask_eq_exp_minus_1)

lemma Narrow_check: "unat x \<le> unat (- 1 :: 'i::len word) \<longleftrightarrow> unat x < 2 ^ LENGTH('i)"
proof -
  have "(0::nat) < 2 ^ LENGTH('i)" by simp
  then show ?thesis unfolding unat_minus_1 by arith
qed

lemma Narrow_eval:
  "(Narrow x :: 'i::len word option) = (if unat x < 2 ^ LENGTH('i) then Some (ucast x) else None)"
  unfolding Narrow_def Narrow_check ..


lemmas push_eval = Push_all_def Push_row_def Push_block_def row_label_def row_weight_def
  row_qid_def row_field_def row_index_def row_value_def row_extra_def row_offset_def
  block_label_def block_weight_def block_qid_def block_field_def block_index_def block_value_def
  block_offset_def block_extra_def append_n_def grow_def batch_ndata_def shift_offsets_def
  Narrow_eval Clear_def RowBlockContainer_new_def narrow_push_Nil narrow_push_Cons narrow_write_Nil narrow_write_Cons


section \<open>max_index after a sequence of appends\<close>





section \<open>The block push and the extra channels\<close>























section \<open>The block push and the prior size\<close>

text \<open>
  C1. The claim takes \<open>priorSize\<close> to be the row count \<^verbatim>\<open>Size()\<close>; the code takes
  \<^verbatim>\<open>size_t size = label.size()\<close>, which is the row count only when \<^verbatim>\<open>label\<close> holds one entry
  per row. In a container of label width 2 with one row, \<^verbatim>\<open>size\<close> is 2: \<^verbatim>\<open>offset[size]\<close> is read
  outside \<^verbatim>\<open>offset\<close>, where the claim's \<^verbatim>\<open>offset[priorSize]\<close> gives the offsets \<open>[0, 1, 2]\<close>. In
  a container with one row and no label, \<^verbatim>\<open>size\<close> is 0: the push overwrites the end of
  row 0 and leaves the new last offset 0, where the claim gives \<open>[0, 2, 3]\<close>.
\<close>

theorem Push_block_prior_size_divergence:
  "Size wide_container = 1 \<and> length (c_label wide_container) = 2 \<and>
   Push_block wide_block wide_container = Undefined \<and>
   shift_offsets (Size wide_container) (b_size wide_block) (b_offset wide_block)
     (c_offset wide_container) = Done [0, 1, 2] \<and>
   Size unlabelled_container = 1 \<and> length (c_label unlabelled_container) = 0 \<and>
   Push_block example_block unlabelled_container =
     Done (unlabelled_container\<lparr>c_label := [1], c_index := [7, 8, 9], c_max_index := 9,
                                 c_offset := [0, 1, 0]\<rparr>) \<and>
   shift_offsets (Size unlabelled_container) (b_size example_block) (b_offset example_block)
     (c_offset unlabelled_container) = Done [0, 2, 3]"
  by (simp add: push_eval Size_def wide_container_def wide_block_def unlabelled_container_def
      example_block_def)

section \<open>Narrowing: an entry that does not fit\<close>












section \<open>Rows pushed one at a time\<close>





section \<open>The assembled block pushed into a cleared container\<close>












section \<open>Rows one at a time against one block\<close>




end
